theory Spec2Isabelle
  imports Complex_Main "HOL-Library.Sublist"
begin

section \<open>NeuroKit: the dispatcher \<open>emg_analyze\<close>\<close>

text \<open>
  A shallow embedding of \<^verbatim>\<open>src/neurokit2/emg/emg_analyze.py\<close>. The function lowers
  the method directive, selects one of three branches by membership of the directive in
  a literal list, and hands the untouched input to one of the two imported extractors
  \<^verbatim>\<open>emg_eventrelated\<close> and \<^verbatim>\<open>emg_intervalrelated\<close>. The extractors are not part
  of the file, so they are parameters of the model.
\<close>

subsection \<open>Data\<close>

text \<open>
  A pandas DataFrame, as far as the dispatcher reads it: the column labels
  (\<^verbatim>\<open>data.columns.values\<close>) and the rows (\<^verbatim>\<open>len(data)\<close> is their number). The
  content of a row is never inspected, so it is a type parameter.
\<close>

record 'row DataFrame =
  columns :: "string list"
  rows :: "'row list"

text \<open>
  The argument \<^verbatim>\<open>data\<close> is a dict of DataFrames or one DataFrame (the two
  \<^verbatim>\<open>isinstance\<close> tests). A dict is the list of its items in insertion order, the
  order in which \<^verbatim>\<open>for i in data\<close> visits the keys; \<^verbatim>\<open>data[i]\<close> is then the value
  of the visited item.
\<close>

datatype ('k, 'row) data =
  Dict "('k \<times> 'row DataFrame) list"
| Frame "'row DataFrame"

text \<open>
  The exceptions that leave \<^verbatim>\<open>emg_analyze\<close>. \<open>ValueError\<close> carries its message,
  \<open>UnboundLocalError\<close> the name of the local variable that was read before any
  assignment. \<open>Raised\<close> stands for whatever else an extractor raises.
\<close>

datatype py_error =
  ValueError string
| UnboundLocalError string
| ZeroDivisionError
| Raised string

subsection \<open>Strings\<close>

text \<open>
  \<^verbatim>\<open>str.lower()\<close> on the ASCII range: the letters \<^verbatim>\<open>A\<close> to \<^verbatim>\<open>Z\<close> (codes 65 to 90)
  move up by 32, every other character is kept.
\<close>

definition lower_char :: "char \<Rightarrow> char" where
  "lower_char c =
     (let n = (of_char c :: nat) in if 65 \<le> n \<and> n \<le> 90 then char_of (n + 32) else c)"

definition lower :: "string \<Rightarrow> string" where
  "lower s = map lower_char s"

text \<open>
  \<^verbatim>\<open>sub in s\<close> for strings: \<open>sub\<close> starts at some position of \<open>s\<close>.
\<close>

fun str_in :: "string \<Rightarrow> string \<Rightarrow> bool" where
  "str_in sub [] = (sub = [])"
| "str_in sub (c # cs) = (prefix sub (c # cs) \<or> str_in sub cs)"

subsection \<open>The two loops over a dict\<close>

text \<open>
  \<^verbatim>\<open>for i in data: colnames = data[i].columns.values\<close>. The local variable is
  \<open>None\<close> while it is unbound; every visited item overwrites it.
\<close>

fun colnames_loop ::
  "('k \<times> 'row DataFrame) list \<Rightarrow> string list option \<Rightarrow> string list option" where
  "colnames_loop [] colnames = colnames"
| "colnames_loop ((i, df) # rest) colnames = colnames_loop rest (Some (columns df))"

text \<open>
  \<^verbatim>\<open>len(x) / sampling_rate\<close>: true division, which raises on a zero divisor. The
  quotient is the exact one; the rounding of the float is not modelled.
\<close>

definition truediv :: "nat \<Rightarrow> int \<Rightarrow> py_error + real" where
  "truediv n sampling_rate =
     (if sampling_rate = 0 then Inl ZeroDivisionError
      else Inr (real n / real_of_int sampling_rate))"

text \<open>
  \<^verbatim>\<open>for i in data: duration = len(data[i]) / sampling_rate\<close>. The division is done at
  every item, so a zero sampling rate raises at the first one.
\<close>

fun duration_loop ::
  "('k \<times> 'row DataFrame) list \<Rightarrow> int \<Rightarrow> real option \<Rightarrow> py_error + real option" where
  "duration_loop [] sampling_rate duration = Inr duration"
| "duration_loop ((i, df) # rest) sampling_rate duration =
     (case truediv (length (rows df)) sampling_rate of
        Inl e \<Rightarrow> Inl e
      | Inr q \<Rightarrow> duration_loop rest sampling_rate (Some q))"

subsection \<open>The branches of \<open>emg_analyze\<close>\<close>

definition wrong_input_message :: string where
  "wrong_input_message =
     ''NeuroKit error: emg_analyze(): Wrong input'' @
     ''or method, we couldn't extract'' @
     ''extract epochs features.''"

text \<open>
  Lines 66 to 78, the body of the first branch: the sanity check and the call of the
  event-related extractor.
\<close>

definition event_branch ::
  "(('k, 'row) data \<Rightarrow> py_error + 'res) \<Rightarrow> ('k, 'row) data \<Rightarrow> py_error + 'res" where
  "event_branch emg_eventrelated data =
     (case (case data of
              Dict d \<Rightarrow> colnames_loop d None
            | Frame df \<Rightarrow> Some (columns df)) of
        None \<Rightarrow> Inl (UnboundLocalError ''colnames'')
      | Some colnames \<Rightarrow>
          if length (filter (\<lambda>i. str_in ''Label'' i) colnames) = 0
          then Inl (ValueError wrong_input_message)
          else emg_eventrelated data)"

text \<open>
  Lines 87 to 100, the body of the third branch. The variable \<open>duration\<close> holds the
  quotient of the last visited item of a dict, or of the one DataFrame.
\<close>

definition auto_branch ::
  "(('k, 'row) data \<Rightarrow> py_error + 'res) \<Rightarrow> (('k, 'row) data \<Rightarrow> py_error + 'res) \<Rightarrow>
   ('k, 'row) data \<Rightarrow> int \<Rightarrow> py_error + 'res" where
  "auto_branch emg_eventrelated emg_intervalrelated data sampling_rate =
     (case data of
        Dict d \<Rightarrow>
          (case duration_loop d sampling_rate None of
             Inl e \<Rightarrow> Inl e
           | Inr None \<Rightarrow> Inl (UnboundLocalError ''duration'')
           | Inr (Some duration) \<Rightarrow>
               if duration \<ge> 10 then emg_intervalrelated data
               else emg_eventrelated data)
      | Frame df \<Rightarrow>
          (case truediv (length (rows df)) sampling_rate of
             Inl e \<Rightarrow> Inl e
           | Inr duration \<Rightarrow>
               if duration \<ge> 10 then emg_intervalrelated data
               else emg_eventrelated data))"

text \<open>
  The function itself. When no branch is taken, \<^verbatim>\<open>return features\<close> reads a local
  variable that was never assigned.
\<close>

definition emg_analyze ::
  "(('k, 'row) data \<Rightarrow> py_error + 'res) \<Rightarrow> (('k, 'row) data \<Rightarrow> py_error + 'res) \<Rightarrow>
   ('k, 'row) data \<Rightarrow> int \<Rightarrow> string \<Rightarrow> py_error + 'res" where
  "emg_analyze emg_eventrelated emg_intervalrelated data sampling_rate method0 =
     (let method = lower method0 in
      if method \<in> set [''event-related'', ''event'', ''epoch'']
      then event_branch emg_eventrelated data
      else if method \<in> set [''interval-related'', ''interval'', ''resting-state'']
      then emg_intervalrelated data
      else if method \<in> set [''auto'']
      then auto_branch emg_eventrelated emg_intervalrelated data sampling_rate
      else Inl (UnboundLocalError ''features''))"

subsection \<open>Notions the properties speak of\<close>

text \<open>
  The value of the local variable \<open>duration\<close> once the third branch has computed it
  (lines 88, 89 and 96), or the exception raised on the way.
\<close>

definition computed_duration :: "('k, 'row) data \<Rightarrow> int \<Rightarrow> py_error + real" where
  "computed_duration data sampling_rate =
     (case data of
        Dict d \<Rightarrow>
          (case duration_loop d sampling_rate None of
             Inl e \<Rightarrow> Inl e
           | Inr None \<Rightarrow> Inl (UnboundLocalError ''duration'')
           | Inr (Some duration) \<Rightarrow> Inr duration)
      | Frame df \<Rightarrow> truediv (length (rows df)) sampling_rate)"

text \<open>All column names of the input: those of every item of a dict, or of the DataFrame.\<close>

definition column_names :: "('k, 'row) data \<Rightarrow> string list" where
  "column_names data =
     (case data of
        Dict d \<Rightarrow> concat (map (\<lambda>(i, df). columns df) d)
      | Frame df \<Rightarrow> columns df)"

text \<open>Some name of the list contains \<^verbatim>\<open>Label\<close>.\<close>

definition has_marker :: "string list \<Rightarrow> bool" where
  "has_marker colnames = list_ex (str_in ''Label'') colnames"

text \<open>
  Two extractors that only report that they were called. Running \<open>emg_analyze\<close> with
  them shows which extractor a call reaches, if any.
\<close>

datatype strategy = EventRelated | IntervalRelated

definition ev_tag :: "('k, 'row) data \<Rightarrow> py_error + strategy" where
  "ev_tag data = Inr EventRelated"

definition iv_tag :: "('k, 'row) data \<Rightarrow> py_error + strategy" where
  "iv_tag data = Inr IntervalRelated"

definition dispatch :: "('k, 'row) data \<Rightarrow> int \<Rightarrow> string \<Rightarrow> py_error + strategy" where
  "dispatch data sampling_rate method = emg_analyze ev_tag iv_tag data sampling_rate method"

text \<open>Example tables: the given column names and \<open>n\<close> rows without content.\<close>

definition table :: "string list \<Rightarrow> nat \<Rightarrow> unit DataFrame" where
  "table colnames n = \<lparr>columns = colnames, rows = replicate n ()\<rparr>"

section \<open>Properties\<close>

subsection \<open>Strings\<close>

lemma lower_examples:
  "lower ''EVENT'' = ''event''"
  "lower ''epoch'' = ''epoch''"
  "lower ''Epoch'' = ''epoch''"
  "lower ''event'' = ''event''"
  "lower ''Event-Related'' = ''event-related''"
  "lower ''event-related'' = ''event-related''"
  "lower ''Interval'' = ''interval''"
  "lower ''interval'' = ''interval''"
  "lower ''resting-state'' = ''resting-state''"
  "lower ''Resting-State'' = ''resting-state''"
  "lower ''auto'' = ''auto''"
  "lower ''banana'' = ''banana''"
  by code_simp+

lemma lower_idem: "lower (lower s) = lower s"
  by (induction s) (auto simp: lower_def lower_char_def Let_def)

lemma str_in_sublist: "str_in sub s \<longleftrightarrow> sublist sub s"
  by (induction s) (auto simp: sublist_Cons_right)

lemma wrong_input_message_text:
  "wrong_input_message =
     ''NeuroKit error: emg_analyze(): Wrong inputor method, we couldn't extractextract epochs features.''"
  by (simp add: wrong_input_message_def)

lemma filter_no_marker:
  "filter (str_in ''Label'') cs = [] \<longleftrightarrow> \<not> has_marker cs"
  by (simp add: has_marker_def list_ex_iff filter_empty_conv)

lemma table_simps:
  "columns (table cs n) = cs"
  "length (rows (table cs n)) = n"
  by (simp_all add: table_def)

lemma marker_examples:
  "has_marker [''EMG_Amplitude'', ''Label'']"
  "\<not> has_marker [''EMG_Amplitude'']"
  by (simp_all add: has_marker_def)

subsection \<open>The loops keep the last visited item\<close>

lemma colnames_loop_last:
  "d \<noteq> [] \<Longrightarrow> colnames_loop d c = Some (columns (snd (last d)))"
  by (induction d c rule: colnames_loop.induct) auto

lemma duration_loop_last:
  "d \<noteq> [] \<Longrightarrow> sr \<noteq> 0 \<Longrightarrow>
   duration_loop d sr q = Inr (Some (real (length (rows (snd (last d)))) / real_of_int sr))"
  by (induction d sr q rule: duration_loop.induct) (auto simp: truediv_def)

lemma duration_loop_zero:
  "d \<noteq> [] \<Longrightarrow> duration_loop d 0 q = Inl ZeroDivisionError"
  by (cases d) (auto simp: truediv_def)

text \<open>
  A duration is computed exactly when the sampling rate is not zero and the input is a
  DataFrame or a dict with at least one item; for a dict it is the row count of the
  last visited item over the sampling rate.
\<close>

lemma computed_duration_Inr_iff:
  "computed_duration data sr = Inr q \<longleftrightarrow>
     sr \<noteq> 0 \<and>
     (case data of
        Dict d \<Rightarrow> d \<noteq> [] \<and> q = real (length (rows (snd (last d)))) / real_of_int sr
      | Frame df \<Rightarrow> q = real (length (rows df)) / real_of_int sr)"
proof (cases data)
  case (Frame df)
  then show ?thesis by (auto simp: computed_duration_def truediv_def)
next
  case (Dict d)
  show ?thesis
  proof (cases "d = []")
    case True
    with Dict show ?thesis by (simp add: computed_duration_def)
  next
    case ne: False
    show ?thesis
    proof (cases "sr = 0")
      case True
      with Dict ne show ?thesis by (simp add: computed_duration_def duration_loop_zero)
    next
      case False
      with Dict ne show ?thesis by (auto simp add: computed_duration_def duration_loop_last)
    qed
  qed
qed

lemma has_marker_last:
  assumes ne: "d \<noteq> []" and no: "\<not> has_marker (column_names (Dict d))"
  shows "\<not> has_marker (columns (snd (last d)))"
proof -
  obtain i df where l: "last d = (i, df)" by (cases "last d")
  have "(i, df) \<in> set d" using ne l last_in_set by metis
  then have "set (columns (snd (last d))) \<subseteq> set (column_names (Dict d))"
    unfolding l by (force simp: column_names_def)
  with no show ?thesis
    by (auto simp: has_marker_def list_ex_iff)
qed

text \<open>
  A directive outside the three lists reaches \<^verbatim>\<open>return features\<close> with the variable
  unbound, whatever the input.
\<close>

lemma unrecognised_directive:
  assumes "lower method \<notin> set [''event-related'', ''event'', ''epoch'',
             ''interval-related'', ''interval'', ''resting-state'', ''auto'']"
  shows "emg_analyze ev iv data sampling_rate method = Inl (UnboundLocalError ''features'')"
  using assms by (simp add: emg_analyze_def)

subsection \<open>The claims\<close>

text \<open>
  C1. With the directive \<open>auto\<close> (in any case), whenever the third branch computes a
  duration \<open>d\<close>, the call is the event-related extractor's on the same input if
  \<open>d < 10\<close> and the interval-related extractor's if \<open>d \<ge> 10\<close>; the boundary
  \<open>d = 10\<close> goes to the interval-related extractor. The duration is the exact quotient
  of the row count and the sampling rate.
\<close>

theorem auto_threshold:
  assumes "lower method = ''auto''"
    and "computed_duration data sampling_rate = Inr d"
  shows "(d < 10 \<longrightarrow> emg_analyze ev iv data sampling_rate method = ev data) \<and>
         (d \<ge> 10 \<longrightarrow> emg_analyze ev iv data sampling_rate method = iv data)"
  using assms
  by (cases data)
     (auto simp: emg_analyze_def auto_branch_def computed_duration_def
           split: sum.splits option.splits)

theorem auto_threshold_witness:
  "lower ''auto'' = ''auto'' \<and>
   computed_duration (Frame (table [''EMG_Amplitude''] 10000) :: (int, unit) data) 1000 = Inr 10 \<and>
   emg_analyze ev_tag iv_tag (Frame (table [''EMG_Amplitude''] 10000) :: (int, unit) data)
     1000 ''auto'' = Inr IntervalRelated"
proof -
  let ?data = "Frame (table [''EMG_Amplitude''] 10000) :: (int, unit) data"
  have m: "lower ''auto'' = ''auto''" by (rule lower_examples)
  have d: "computed_duration ?data 1000 = Inr 10"
    by (simp add: computed_duration_def truediv_def table_simps)
  from auto_threshold [OF m d, of ev_tag iv_tag] m d show ?thesis
    by (simp add: iv_tag_def)
qed

text \<open>
  C2. The directive \<open>banana\<close> is in none of the three lists, so no branch assigns
  \<open>features\<close>: for every input and sampling rate the call ends in the
  \<open>UnboundLocalError\<close> of \<^verbatim>\<open>return features\<close>. The function has no error of its own
  for an unrecognised directive.
\<close>

theorem emg_analyze_banana:
  "emg_analyze ev iv data sampling_rate ''banana'' = Inl (UnboundLocalError ''features'')"
  by (simp add: emg_analyze_def lower_examples)

text \<open>
  C3, as the code has it. The check for a marker column belongs to the first branch
  only. With an event-related directive (a synonym, in any case) and an input that is
  a DataFrame or a dict with at least one item, if no column name of the input contains
  \<^verbatim>\<open>Label\<close> the call raises the \<open>ValueError\<close> of line 74, whatever the extractors
  would do.
\<close>

theorem event_directive_marker_check:
  assumes "lower method \<in> set [''event-related'', ''event'', ''epoch'']"
    and "data \<noteq> Dict []"
    and "\<not> has_marker (column_names data)"
  shows "emg_analyze ev iv data sampling_rate method = Inl (ValueError wrong_input_message)"
proof (cases data)
  case (Frame df)
  with assms show ?thesis
    by (simp add: emg_analyze_def event_branch_def filter_no_marker column_names_def)
next
  case (Dict d)
  with assms have ne: "d \<noteq> []" by simp
  from has_marker_last [OF ne] assms(3) Dict
  have "\<not> has_marker (columns (snd (last d)))" by simp
  with assms(1) Dict ne show ?thesis
    by (simp add: emg_analyze_def event_branch_def filter_no_marker colnames_loop_last)
qed

theorem event_directive_marker_check_witness:
  "lower ''Epoch'' \<in> set [''event-related'', ''event'', ''epoch''] \<and>
   Dict [(0::int, table [''EMG_Amplitude''] 200), (1, table [''EMG_Amplitude'', ''EMG_Raw''] 200)]
     \<noteq> Dict [] \<and>
   \<not> has_marker (column_names
     (Dict [(0::int, table [''EMG_Amplitude''] 200), (1, table [''EMG_Amplitude'', ''EMG_Raw''] 200)])) \<and>
   emg_analyze ev_tag iv_tag
     (Dict [(0::int, table [''EMG_Amplitude''] 200), (1, table [''EMG_Amplitude'', ''EMG_Raw''] 200)])
     1000 ''Epoch'' = Inl (ValueError wrong_input_message)"
proof -
  let ?data = "Dict [(0::int, table [''EMG_Amplitude''] 200),
                     (1, table [''EMG_Amplitude'', ''EMG_Raw''] 200)]"
  have m: "lower ''Epoch'' \<in> set [''event-related'', ''event'', ''epoch'']"
    by (simp add: lower_examples)
  have ne: "?data \<noteq> Dict []" by simp
  have no: "\<not> has_marker (column_names ?data)"
    by (simp add: column_names_def table_simps has_marker_def)
  from event_directive_marker_check [OF m ne no, of ev_tag iv_tag 1000] m ne no
  show ?thesis by simp
qed

text \<open>
  C3, as stated, fails in \<open>auto\<close> mode: a table of 200 rows at 1000 Hz whose only
  column is \<^verbatim>\<open>EMG_Amplitude\<close> lasts 0.2 s, and the third branch calls the
  event-related extractor without any check.
\<close>

theorem auto_mode_skips_marker_check:
  "\<not> has_marker (column_names (Frame (table [''EMG_Amplitude''] 200) :: (int, unit) data)) \<and>
   computed_duration (Frame (table [''EMG_Amplitude''] 200) :: (int, unit) data) 1000
     = Inr (2 / 10) \<and>
   emg_analyze ev_tag iv_tag (Frame (table [''EMG_Amplitude''] 200) :: (int, unit) data)
     1000 ''auto'' = Inr EventRelated \<and>
   emg_analyze ev_tag iv_tag (Frame (table [''EMG_Amplitude''] 200) :: (int, unit) data)
     1000 ''auto'' \<noteq> Inl (ValueError wrong_input_message)"
  by (simp add: column_names_def table_simps has_marker_def computed_duration_def
        truediv_def emg_analyze_def lower_examples auto_branch_def ev_tag_def)

text \<open>
  C4. The directives \<^verbatim>\<open>EVENT\<close>, \<^verbatim>\<open>epoch\<close> and \<^verbatim>\<open>Event-Related\<close> all take the
  first branch, and \<^verbatim>\<open>Interval\<close> and \<^verbatim>\<open>resting-state\<close> both call the
  interval-related extractor, for every input and sampling rate.
\<close>

theorem directive_synonyms:
  "emg_analyze ev iv data sampling_rate ''EVENT'' = event_branch ev data \<and>
   emg_analyze ev iv data sampling_rate ''epoch'' = event_branch ev data \<and>
   emg_analyze ev iv data sampling_rate ''Event-Related'' = event_branch ev data \<and>
   emg_analyze ev iv data sampling_rate ''Interval'' = iv data \<and>
   emg_analyze ev iv data sampling_rate ''resting-state'' = iv data"
  by (simp add: emg_analyze_def lower_examples)

text \<open>
  C5, as the code has it. For a dict with at least one item and an event-related
  directive, the check reads the column names of the last visited item only: the call
  is the event-related extractor's if one of them contains \<^verbatim>\<open>Label\<close>, and the
  \<open>ValueError\<close> otherwise.
\<close>

theorem event_directive_checks_last_epoch:
  assumes "lower method \<in> set [''event-related'', ''event'', ''epoch'']"
    and "d \<noteq> []"
  shows "emg_analyze ev iv (Dict d) sampling_rate method =
           (if has_marker (columns (snd (last d))) then ev (Dict d)
            else Inl (ValueError wrong_input_message))"
  using assms
  by (simp add: emg_analyze_def event_branch_def filter_no_marker colnames_loop_last)

theorem event_directive_checks_last_epoch_witness:
  "lower ''event'' \<in> set [''event-related'', ''event'', ''epoch''] \<and>
   [(0::int, table [''EMG_Amplitude''] 200), (1, table [''Label'', ''EMG_Amplitude''] 200)] \<noteq> [] \<and>
   emg_analyze ev_tag iv_tag
     (Dict [(0::int, table [''EMG_Amplitude''] 200), (1, table [''Label'', ''EMG_Amplitude''] 200)])
     1000 ''event'' = Inr EventRelated"
proof -
  let ?d = "[(0::int, table [''EMG_Amplitude''] 200), (1, table [''Label'', ''EMG_Amplitude''] 200)]"
  have m: "lower ''event'' \<in> set [''event-related'', ''event'', ''epoch'']"
    by (simp add: lower_examples)
  have ne: "?d \<noteq> []" by simp
  from event_directive_checks_last_epoch [OF m ne, of ev_tag iv_tag 1000] m ne
  show ?thesis by (simp add: table_simps has_marker_def ev_tag_def)
qed

text \<open>
  C5, as stated, fails. In the first dict an epoch has the marker column, yet the call
  raises, because the last epoch has none; in the second, the same epochs in the other
  order, an epoch has no marker column, yet the call is delegated.
\<close>

theorem marker_check_misses_earlier_epochs:
  "has_marker (columns (table [''EMG_Amplitude'', ''Label''] 200)) \<and>
   \<not> has_marker (columns (table [''EMG_Amplitude''] 200)) \<and>
   emg_analyze ev_tag iv_tag
     (Dict [(0::int, table [''EMG_Amplitude'', ''Label''] 200), (1, table [''EMG_Amplitude''] 200)])
     1000 ''event-related'' = Inl (ValueError wrong_input_message) \<and>
   emg_analyze ev_tag iv_tag
     (Dict [(0::int, table [''EMG_Amplitude''] 200), (1, table [''EMG_Amplitude'', ''Label''] 200)])
     1000 ''event-related'' = Inr EventRelated"
  by (simp add: table_simps has_marker_def emg_analyze_def lower_examples event_branch_def
        ev_tag_def)

text \<open>
  C6. For the dict of two tables of 200 rows under the keys 0 and 1, the sampling rate
  1000 and the directive \<open>auto\<close>, the computed duration is the row count of the last
  visited table over 1000, that is 0.2, and the call is the event-related extractor's.
\<close>

theorem two_epochs_of_200_rows:
  assumes "length (rows a) = 200" and "length (rows b) = 200"
  shows "computed_duration (Dict [(0::int, a), (1, b)]) 1000
           = Inr (real (length (rows b)) / 1000) \<and>
         computed_duration (Dict [(0::int, a), (1, b)]) 1000 = Inr (2 / 10) \<and>
         emg_analyze ev iv (Dict [(0::int, a), (1, b)]) 1000 ''auto''
           = ev (Dict [(0, a), (1, b)])"
  using assms
  by (simp add: emg_analyze_def lower_examples auto_branch_def computed_duration_def truediv_def)

theorem two_epochs_of_200_rows_witness:
  "length (rows (table [''EMG_Amplitude'', ''Label''] 200)) = 200 \<and>
   computed_duration
     (Dict [(0::int, table [''EMG_Amplitude'', ''Label''] 200),
            (1, table [''EMG_Amplitude'', ''Label''] 200)]) 1000 = Inr (2 / 10) \<and>
   emg_analyze ev_tag iv_tag
     (Dict [(0::int, table [''EMG_Amplitude'', ''Label''] 200),
            (1, table [''EMG_Amplitude'', ''Label''] 200)]) 1000 ''auto'' = Inr EventRelated"
proof -
  let ?t = "table [''EMG_Amplitude'', ''Label''] 200"
  have l: "length (rows ?t) = 200" by (simp add: table_simps)
  from two_epochs_of_200_rows [OF l l, of ev_tag iv_tag] l show ?thesis
    by (simp add: ev_tag_def)
qed

text \<open>
  C7. With the directive \<^verbatim>\<open>event-related\<close>, a DataFrame with the columns
  \<^verbatim>\<open>EMG_Amplitude\<close> and \<^verbatim>\<open>Label\<close> passes the check and the call is the event-related
  extractor's on that DataFrame; a DataFrame with the column \<^verbatim>\<open>EMG_Amplitude\<close> alone
  raises the \<open>ValueError\<close>.
\<close>

theorem signal_table_marker:
  "emg_analyze ev iv (Frame \<lparr>columns = [''EMG_Amplitude'', ''Label''], rows = r\<rparr>)
     sampling_rate ''event-related'' =
   ev (Frame \<lparr>columns = [''EMG_Amplitude'', ''Label''], rows = r\<rparr>) \<and>
   emg_analyze ev iv (Frame \<lparr>columns = [''EMG_Amplitude''], rows = r\<rparr>)
     sampling_rate ''event-related'' =
   Inl (ValueError wrong_input_message)"
  by (simp add: emg_analyze_def lower_examples event_branch_def)

text \<open>
  C8. Whatever the extractors are, a call of \<open>emg_analyze\<close> either ends in an
  exception of the dispatcher itself, or it is exactly the call of the extractor that
  the dispatch reaches, on the unchanged input: the extractor's result is returned as
  it is, and so is the extractor's exception.
\<close>

theorem emg_analyze_delegates_verbatim:
  "emg_analyze ev iv data sampling_rate method =
     (case dispatch data sampling_rate method of
        Inl e \<Rightarrow> Inl e
      | Inr EventRelated \<Rightarrow> ev data
      | Inr IntervalRelated \<Rightarrow> iv data)"
  by (cases data)
     (auto simp: dispatch_def emg_analyze_def event_branch_def auto_branch_def
                 ev_tag_def iv_tag_def Let_def
           split: sum.splits option.splits)

text \<open>
  C9. With an interval-related directive (a synonym, in any case) the call is the
  interval-related extractor's on the input, for every input: nothing of the input is
  read before.
\<close>

theorem interval_directive_no_validation:
  assumes "lower method \<in> set [''interval-related'', ''interval'', ''resting-state'']"
  shows "emg_analyze ev iv data sampling_rate method = iv data"
  using assms by (auto simp: emg_analyze_def)

theorem interval_directive_no_validation_witness:
  "lower ''Resting-State'' \<in> set [''interval-related'', ''interval'', ''resting-state''] \<and>
   \<not> has_marker (column_names (Frame (table [''EMG_Amplitude''] 200) :: (int, unit) data)) \<and>
   emg_analyze ev_tag iv_tag (Frame (table [''EMG_Amplitude''] 200) :: (int, unit) data)
     1000 ''Resting-State'' = Inr IntervalRelated"
proof -
  have m: "lower ''Resting-State'' \<in> set [''interval-related'', ''interval'', ''resting-state'']"
    by (simp add: lower_examples)
  from interval_directive_no_validation [OF m, of ev_tag iv_tag] m show ?thesis
    by (simp add: iv_tag_def column_names_def table_simps has_marker_def)
qed

text \<open>
  C10. With an event-related or interval-related directive (a synonym, in any case),
  two calls that differ in the sampling rate only are equal. The extractors take the
  input alone, so the sampling rate cannot reach them.
\<close>

theorem explicit_directive_ignores_sampling_rate:
  assumes "lower method \<in> set [''event-related'', ''event'', ''epoch''] \<union>
                          set [''interval-related'', ''interval'', ''resting-state'']"
  shows "emg_analyze ev iv data sampling_rate method =
         emg_analyze ev iv data sampling_rate' method"
  using assms by (auto simp: emg_analyze_def)

theorem explicit_directive_ignores_sampling_rate_witness:
  "lower ''EVENT'' \<in> set [''event-related'', ''event'', ''epoch''] \<union>
                      set [''interval-related'', ''interval'', ''resting-state''] \<and>
   emg_analyze ev_tag iv_tag (Frame (table [''EMG_Amplitude'', ''Label''] 200) :: (int, unit) data)
     1000 ''EVENT'' =
   emg_analyze ev_tag iv_tag (Frame (table [''EMG_Amplitude'', ''Label''] 200) :: (int, unit) data)
     0 ''EVENT''"
proof -
  have m: "lower ''EVENT'' \<in> set [''event-related'', ''event'', ''epoch''] \<union>
             set [''interval-related'', ''interval'', ''resting-state'']"
    by (simp add: lower_examples)
  from explicit_directive_ignores_sampling_rate [OF m, of ev_tag iv_tag _ 1000 0] m
  show ?thesis by blast
qed

end
